theory Spec2Isabelle
  imports Complex_Main
begin

section \<open>Python values used by the server core\<close>

text \<open>
  Text is a list of characters. Python's \<open>str\<close> holds Unicode code points; the model covers
  the code points below 256, which is where an Isabelle \<open>char\<close> lives.
\<close>

text \<open>\<open>str.isspace\<close> on one character, for the code points below 256.\<close>

definition isspace :: "char \<Rightarrow> bool" where
  "isspace c =
     (let n = (of_char c :: nat)
      in (9 \<le> n \<and> n \<le> 13) \<or> (28 \<le> n \<and> n \<le> 32) \<or> n = 133 \<or> n = 160)"

text \<open>\<open>str.strip()\<close>: drop the whitespace at both ends.\<close>

definition lstrip :: "string \<Rightarrow> string" where
  "lstrip s = dropWhile isspace s"

definition rstrip :: "string \<Rightarrow> string" where
  "rstrip s = rev (dropWhile isspace (rev s))"

definition strip :: "string \<Rightarrow> string" where
  "strip s = rstrip (lstrip s)"

text \<open>\<open>sep.join(xs)\<close>.\<close>

fun join :: "string \<Rightarrow> string list \<Rightarrow> string" where
  "join sep [] = []"
| "join sep [x] = x"
| "join sep (x # y # ys) = x @ sep @ join sep (y # ys)"

text \<open>\<open>str(n)\<close> for a non-negative integer, as an f-string formats it.\<close>

definition digit_char :: "nat \<Rightarrow> char" where
  "digit_char d = ''0123456789'' ! d"

fun str_nat :: "nat \<Rightarrow> string" where
  "str_nat n =
     (if n < 10 then [digit_char n] else str_nat (n div 10) @ [digit_char (n mod 10)])"

declare str_nat.simps [simp del]

text \<open>
  Exceptions, by the class that decides which handler takes them:
  \<open>ClientError\<close> is an instance of \<open>aiohttp.ClientError\<close>, \<open>Exception\<close> any other instance of
  \<open>Exception\<close> (\<open>ConfigurationError\<close> among them), and \<open>BaseException\<close> an instance of
  \<open>BaseException\<close> that is not an \<open>Exception\<close>: \<open>asyncio.CancelledError\<close>,
  \<open>KeyboardInterrupt\<close>, \<open>SystemExit\<close>. The text is \<open>str(e)\<close>.
\<close>

datatype exn = ClientError string | Exception string | BaseException string

text \<open>What \<open>except Exception\<close> catches, and what \<open>except aiohttp.ClientError\<close> catches.\<close>

fun is_Exception :: "exn \<Rightarrow> bool" where
  "is_Exception (ClientError _) = True"
| "is_Exception (Exception _) = True"
| "is_Exception (BaseException _) = False"

fun str_exn :: "exn \<Rightarrow> string" where
  "str_exn (ClientError s) = s"
| "str_exn (Exception s) = s"
| "str_exn (BaseException s) = s"

text \<open>The dictionaries, lists and scalars that go over the wire.\<close>

datatype json =
    JNone
  | JBool bool
  | JInt int
  | JStr string
  | JList "json list"
  | JDict "(string \<times> json) list"

section \<open>Configuration (config/config.py)\<close>

text \<open>
  The module constants the summary manager imports. Each is read from the process
  environment when the module loads, so the model takes them as a record;
  \<open>default_config\<close> holds the values used when no variable is set.
\<close>

record config =
  INCREMENTAL_UPDATES_ENABLED :: bool
  INCREMENTAL_SUMMARY_INTERVAL_SEC :: int
  INCREMENTAL_SUMMARY_PROMPT :: string
  INCREMENTAL_SUMMARY_MAX_TOKENS :: int
  INCREMENTAL_SUMMARY_MODEL :: string

definition default_prompt :: string where
  "default_prompt =
     ''You are maintaining a running, compact summary of a presentation so far.\<newline>'' @
     ''- Summarize only what has been presented (no hallucinations).\<newline>'' @
     ''- Preserve key claims, evidence, examples, and references to visuals if mentioned.\<newline>'' @
     ''- Prefer bullet points. Keep under ~1000 words.\<newline>'' @
     ''Return only the summary text (no preamble).''"

definition default_config :: config where
  "default_config =
     \<lparr> INCREMENTAL_UPDATES_ENABLED = True,
       INCREMENTAL_SUMMARY_INTERVAL_SEC = 60,
       INCREMENTAL_SUMMARY_PROMPT = default_prompt,
       INCREMENTAL_SUMMARY_MAX_TOKENS = 1024,
       INCREMENTAL_SUMMARY_MODEL = ''gemini-2.5-flash'' \<rparr>"

text \<open>
  \<open>ApiConfig.initialize\<close>. Its inputs from outside are the outcome of \<open>get_secret\<close> and the
  \<open>GOOGLE_API_KEY\<close> environment variable; it returns the new \<open>api_key\<close>, or the exception
  that leaves it. \<open>prev_key\<close> is the \<open>api_key\<close> the object held before the call.
\<close>

definition truthy :: "string option \<Rightarrow> bool" where
  "truthy v = (case v of None \<Rightarrow> False | Some s \<Rightarrow> s \<noteq> [])"

definition initialize ::
  "bool \<Rightarrow> exn + string \<Rightarrow> string option \<Rightarrow> string option \<Rightarrow> exn + string option" where
  "initialize use_vertex get_secret getenv_key prev_key =
     (if \<not> use_vertex then
        (case get_secret of
           Inr k \<Rightarrow> Inr (Some k)
         | Inl e \<Rightarrow>
             if is_Exception e then
               (if \<not> truthy getenv_key
                then Inl (Exception ''No API key available from Secret Manager or environment'')
                else Inr getenv_key)
             else Inl e)
      else Inr prev_key)"

section \<open>Sessions (core/session.py)\<close>

text \<open>Handles to tasks, audio streams and live sessions are opaque; the model numbers them.\<close>

type_synonym handle = nat

record SessionState =
  is_receiving_response :: bool
  interrupted :: bool
  current_tool_execution :: "handle option"
  current_audio_stream :: "handle option"
  genai_session :: "handle option"
  received_model_response :: bool

text \<open>\<open>SessionState()\<close>: the dataclass defaults.\<close>

definition SessionState_init :: SessionState where
  "SessionState_init =
     \<lparr> is_receiving_response = False,
       interrupted = False,
       current_tool_execution = None,
       current_audio_stream = None,
       genai_session = None,
       received_model_response = False \<rparr>"

section \<open>The incremental summary manager (core/incremental_summary.py)\<close>

text \<open>
  The fields of \<open>IncrementalSummaryManager\<close>. Two are left out of the record: the reference
  \<open>session_state\<close>, whose target other code mutates, so every operation that reads it takes
  the session's current value as an argument; and \<open>_lock\<close>, which is free whenever one
  invocation runs alone, the only case the functions below describe.
  Clock readings are reals: \<open>time.time()\<close> returns a float, and the rounding of the
  subtraction \<open>now - _last_update_ts\<close> is not modelled.
\<close>

record manager =
  last_update_ts :: real
  running_summary :: string
  transcript_buffer :: "string list"
  summary_part_id :: string

definition manager_init :: manager where
  "manager_init =
     \<lparr> last_update_ts = 0,
       running_summary = [],
       transcript_buffer = [],
       summary_part_id = ''running_summary'' \<rparr>"

definition add_transcript :: "string \<Rightarrow> manager \<Rightarrow> manager" where
  "add_transcript text m =
     (if text = [] then m
      else m\<lparr>transcript_buffer := transcript_buffer m @ [text]\<rparr>)"

definition get_summary :: "manager \<Rightarrow> string" where
  "get_summary m = running_summary m"

text \<open>
  What the outside world does during one compaction cycle: the credentials lookup, the
  deployment's environment, the text-generation call (it raises, or returns a response
  whose \<open>text\<close> attribute is absent, \<open>None\<close> or a string; building the client is part of
  it), and the live session's \<open>send\<close> (\<open>None\<close> when it returns).
\<close>

record cycle_env =
  use_vertex :: bool
  get_secret :: "exn + string"
  getenv_GOOGLE_API_KEY :: "string option"
  api_key :: "string option"
  getenv_PROJECT_ID :: "string option"
  generate :: "exn + string option"
  send :: "exn option"

text \<open>What a cycle does to the outside world, in order.\<close>

datatype effect =
    Generate string string int
  | Send json

text \<open>
  The guarded block of \<open>_update_summary_locked\<close> that produces \<open>summary_text\<close>. An
  \<open>Exception\<close> gives the empty text; anything else that is raised leaves the function.
\<close>

definition handle_generation_error :: "exn \<Rightarrow> effect list \<Rightarrow> (exn + string) \<times> effect list" where
  "handle_generation_error e fx = (if is_Exception e then (Inr [], fx) else (Inl e, fx))"

definition generate_summary_text ::
  "config \<Rightarrow> cycle_env \<Rightarrow> string \<Rightarrow> (exn + string) \<times> effect list" where
  "generate_summary_text cfg env user_text =
     (case initialize (use_vertex env) (get_secret env) (getenv_GOOGLE_API_KEY env) (api_key env) of
        Inl e \<Rightarrow> handle_generation_error e []
      | Inr key \<Rightarrow>
          if use_vertex env \<and> \<not> truthy (getenv_PROJECT_ID env)
          then handle_generation_error (Exception ''PROJECT_ID is required for Vertex AI'') []
          else
            (let fx = [Generate (INCREMENTAL_SUMMARY_MODEL cfg) user_text
                         (INCREMENTAL_SUMMARY_MAX_TOKENS cfg)]
             in case generate env of
                  Inl e \<Rightarrow> handle_generation_error e fx
                | Inr resp_text \<Rightarrow>
                    (Inr (strip (case resp_text of None \<Rightarrow> [] | Some t \<Rightarrow> t)), fx)))"

text \<open>The text the cycle builds from the buffer, and the prompt around it.\<close>

definition new_chunk :: "string list \<Rightarrow> string" where
  "new_chunk buffer = strip (join ''\<newline>'' buffer)"

definition user_text :: "config \<Rightarrow> string \<Rightarrow> string \<Rightarrow> string" where
  "user_text cfg summary chunk =
     (let instruction =
            INCREMENTAL_SUMMARY_PROMPT cfg @
            (if summary \<noteq> []
             then ''\<newline>\<newline>Existing summary to refine (merge and compress further):\<newline>'' @ summary
             else [])
      in instruction @ ''\<newline>\<newline>New transcript chunk to incorporate:\<newline>'' @ chunk)"

text \<open>The argument of \<open>session.send\<close> in the cycle.\<close>

definition summary_update_message :: "string \<Rightarrow> json" where
  "summary_update_message summary =
     JDict [(''client_content'',
       JDict [(''turns'',
                JList [JDict [(''role'', JStr ''user''),
                              (''parts'',
                                JList [JDict [(''text'', JStr ''[Running summary updated]'')],
                                       JDict [(''text'', JStr summary)]])]]),
              (''turn_complete'', JBool False)])]"

text \<open>
  \<open>_update_summary_locked\<close>. The result is the exception that leaves the function, if any,
  the manager afterwards, and the effects.
\<close>

definition update_summary_locked ::
  "config \<Rightarrow> cycle_env \<Rightarrow> SessionState \<Rightarrow> manager \<Rightarrow> exn option \<times> manager \<times> effect list" where
  "update_summary_locked cfg env session_state m =
     (case genai_session session_state of
        None \<Rightarrow> (None, m, [])
      | Some session \<Rightarrow>
          (let chunk = new_chunk (transcript_buffer m);
               m1 = m\<lparr>transcript_buffer := []\<rparr>;
               text = user_text cfg (running_summary m1) chunk
           in case generate_summary_text cfg env text of
                (Inl e, fx) \<Rightarrow> (Some e, m1, fx)
              | (Inr summary_text, fx) \<Rightarrow>
                  if summary_text = [] then (None, m1, fx)
                  else
                    (let m2 = m1\<lparr>running_summary := summary_text\<rparr>
                     in (send env, m2,
                         fx @ [Send (summary_update_message (running_summary m2))]))))"

text \<open>
  \<open>maybe_update\<close>. \<open>time.time()\<close> is read three times: before the lock, under it, and after
  the cycle. The outcome says how the call ended: at one of the guards, with the cycle
  returned, with an \<open>Exception\<close> of the cycle caught and logged, or with an exception that
  \<open>except Exception\<close> does not catch leaving \<open>maybe_update\<close>.
\<close>

record clock =
  now_before_lock :: real
  now_under_lock :: real
  now_after_cycle :: real

datatype outcome = NotRun | Completed | Failed exn | Escaped exn

definition maybe_update ::
  "config \<Rightarrow> clock \<Rightarrow> cycle_env \<Rightarrow> SessionState \<Rightarrow> manager \<Rightarrow> outcome \<times> manager \<times> effect list" where
  "maybe_update cfg clk env session_state m =
     (if \<not> INCREMENTAL_UPDATES_ENABLED cfg then (NotRun, m, [])
      else if now_before_lock clk - last_update_ts m
                < real_of_int (INCREMENTAL_SUMMARY_INTERVAL_SEC cfg)
      then (NotRun, m, [])
      else if transcript_buffer m = [] then (NotRun, m, [])
      else if now_under_lock clk - last_update_ts m
                < real_of_int (INCREMENTAL_SUMMARY_INTERVAL_SEC cfg)
      then (NotRun, m, [])
      else
        (case update_summary_locked cfg env session_state m of
           (None, m', fx) \<Rightarrow> (Completed, m'\<lparr>last_update_ts := now_after_cycle clk\<rparr>, fx)
         | (Some e, m', fx) \<Rightarrow>
             if is_Exception e then (Failed e, m', fx) else (Escaped e, m', fx)))"

text \<open>\<open>inject_summary_for_questions\<close>: the manager is only read.\<close>

definition questions_prompt :: "string \<Rightarrow> string" where
  "questions_prompt summary =
     ''Using the following compact summary of the presentation so far, '' @
     ''ask 3-5 thoughtful, specific questions that probe understanding, evidence, and implications. '' @
     ''Keep them concise.\<newline>\<newline>Summary:\<newline>'' @ summary"

definition questions_message :: "string \<Rightarrow> json" where
  "questions_message summary =
     JDict [(''client_content'',
       JDict [(''turns'',
                JList [JDict [(''role'', JStr ''user''),
                              (''parts'', JList [JDict [(''text'', JStr (questions_prompt summary))]])]]),
              (''turn_complete'', JBool True)])]"

definition inject_summary_for_questions ::
  "exn option \<Rightarrow> SessionState \<Rightarrow> manager \<Rightarrow> exn option \<times> effect list" where
  "inject_summary_for_questions send_result session_state m =
     (if genai_session session_state = None \<or> running_summary m = [] then (None, [])
      else (send_result, [Send (questions_message (running_summary m))]))"

text \<open>
  A run of \<open>maybe_update\<close> calls on one manager, each with its own clock readings, outside
  world and session value, and the outcome of each.
\<close>

type_synonym call = "clock \<times> cycle_env \<times> SessionState"

fun maybe_update_calls :: "config \<Rightarrow> call list \<Rightarrow> manager \<Rightarrow> outcome list \<times> manager" where
  "maybe_update_calls cfg [] m = ([], m)"
| "maybe_update_calls cfg ((clk, env, session_state) # calls) m =
     (case maybe_update cfg clk env session_state m of
        (out, m', fx) \<Rightarrow>
          (case maybe_update_calls cfg calls m' of
             (outs, m'') \<Rightarrow> (out # outs, m'')))"

definition cycles_run :: "outcome list \<Rightarrow> nat" where
  "cycles_run outs = length (filter (\<lambda>out. out \<noteq> NotRun) outs)"

definition readings :: "call \<Rightarrow> real list" where
  "readings c =
     (case c of (clk, env, session_state) \<Rightarrow>
        [now_before_lock clk, now_under_lock clk, now_after_cycle clk])"

text \<open>Every clock reading of the run is less than the interval away from every other.\<close>

definition within_interval :: "config \<Rightarrow> call list \<Rightarrow> bool" where
  "within_interval cfg calls =
     list_all (\<lambda>t. list_all (\<lambda>t'. t' - t < real_of_int (INCREMENTAL_SUMMARY_INTERVAL_SEC cfg))
                      (concat (map readings calls)))
              (concat (map readings calls))"

section \<open>Objects and the session table (core/session.py)\<close>

text \<open>
  \<open>SessionState()\<close> and \<open>IncrementalSummaryManager(session_state)\<close> each make a new object,
  and the table \<open>active_sessions\<close> and the manager's field \<open>session_state\<close> hold references.
  The store lists the objects in the order they were made; an address is an object's
  position in that list, so a new object's address is the length of the list before it.
  Objects no longer referred to stay in the list.
\<close>

type_synonym address = nat

datatype object = Session SessionState | Manager address manager

record store =
  objects :: "object list"
  active_sessions :: "string \<rightharpoonup> address"

definition allocate :: "object \<Rightarrow> store \<Rightarrow> address \<times> store" where
  "allocate obj s = (length (objects s), s\<lparr>objects := objects s @ [obj]\<rparr>)"

definition create_session :: "string \<Rightarrow> store \<Rightarrow> address \<times> store" where
  "create_session session_id s =
     (case allocate (Session SessionState_init) s of
        (session, s') \<Rightarrow>
          (session, s'\<lparr>active_sessions := (active_sessions s')(session_id \<mapsto> session)\<rparr>))"

definition get_session :: "string \<Rightarrow> store \<Rightarrow> address option" where
  "get_session session_id s = active_sessions s session_id"

definition remove_session :: "string \<Rightarrow> store \<Rightarrow> store" where
  "remove_session session_id s =
     (if session_id \<in> dom (active_sessions s)
      then s\<lparr>active_sessions := (active_sessions s)(session_id := None)\<rparr>
      else s)"

text \<open>
  The constructor of \<open>IncrementalSummaryManager\<close>: a new object that refers to the session
  it was given and holds the initial field values.
\<close>

definition IncrementalSummaryManager_init :: "address \<Rightarrow> store \<Rightarrow> address \<times> store" where
  "IncrementalSummaryManager_init session_state s = allocate (Manager session_state manager_init) s"

section \<open>The tool executor (core/tool_handler.py)\<close>

text \<open>
  \<open>CLOUD_FUNCTIONS\<close> maps a tool name to the value of an environment variable, which is
  \<open>None\<close> when the variable is not set; the table in config.py has no entry.
\<close>

type_synonym cloud_functions = "string \<rightharpoonup> string option"

definition CLOUD_FUNCTIONS :: cloud_functions where
  "CLOUD_FUNCTIONS = Map.empty"

text \<open>An f-string formats \<open>None\<close> as the text \<open>None\<close>.\<close>

definition format_opt :: "string option \<Rightarrow> string" where
  "format_opt v = (case v of None \<Rightarrow> ''None'' | Some s \<Rightarrow> s)"

text \<open>The response object of aiohttp: its status and what its two readers do.\<close>

record response =
  status :: nat
  text_result :: "exn + string"
  json_result :: "exn + json"

type_synonym params = "(string \<times> json) list"

definition error_dict :: "string \<Rightarrow> json" where
  "error_dict msg = JDict [(''error'', JStr msg)]"

text \<open>
  The URL requested: \<open>f"{base_url}?{query_string}" if params else base_url\<close>. It is
  \<open>None\<close> when the table holds \<open>None\<close> and there are no parameters.
\<close>

definition function_url :: "string option \<Rightarrow> params \<Rightarrow> string \<Rightarrow> string option" where
  "function_url base_url ps query_string =
     (if ps \<noteq> [] then Some (format_opt base_url @ ''?'' @ query_string) else base_url)"

text \<open>
  The guarded body of \<open>execute_tool\<close>. \<open>urlencode\<close> and the GET request (opening the
  client session included) are the outside world; the second component lists the URLs
  requested.
\<close>

definition execute_tool_body ::
  "cloud_functions \<Rightarrow> (params \<Rightarrow> exn + string) \<Rightarrow> (string option \<Rightarrow> exn + response) \<Rightarrow>
   string \<Rightarrow> params \<Rightarrow> (exn + json) \<times> string option list" where
  "execute_tool_body functions urlencode http_get tool_name ps =
     (case functions tool_name of
        None \<Rightarrow> (Inr (error_dict (''Unknown tool: '' @ tool_name)), [])
      | Some base_url \<Rightarrow>
          (case urlencode ps of
             Inl e \<Rightarrow> (Inl e, [])
           | Inr query_string \<Rightarrow>
               (let url = function_url base_url ps query_string
                in case http_get url of
                     Inl e \<Rightarrow> (Inl e, [url])
                   | Inr response \<Rightarrow>
                       (case text_result response of
                          Inl e \<Rightarrow> (Inl e, [url])
                        | Inr response_text \<Rightarrow>
                            if status response \<noteq> 200
                            then (Inr (error_dict (''Cloud function returned status '' @
                                                   str_nat (status response))),
                                  [url])
                            else
                              (case json_result response of
                                 Inr v \<Rightarrow> (Inr v, [url])
                               | Inl e \<Rightarrow>
                                   if is_Exception e
                                   then (Inr (error_dict
                                           (''Invalid JSON response from cloud function: '' @
                                            str_exn e)),
                                         [url])
                                   else (Inl e, [url]))))))"

text \<open>\<open>execute_tool\<close>: the body under its two handlers.\<close>

definition execute_tool ::
  "cloud_functions \<Rightarrow> (params \<Rightarrow> exn + string) \<Rightarrow> (string option \<Rightarrow> exn + response) \<Rightarrow>
   string \<Rightarrow> params \<Rightarrow> (exn + json) \<times> string option list" where
  "execute_tool functions urlencode http_get tool_name ps =
     (case execute_tool_body functions urlencode http_get tool_name ps of
        (Inr v, requests) \<Rightarrow> (Inr v, requests)
      | (Inl (ClientError s), requests) \<Rightarrow>
          (Inr (error_dict (''Failed to call cloud function: '' @ s)), requests)
      | (Inl (Exception s), requests) \<Rightarrow>
          (Inr (error_dict (''Tool execution failed: '' @ s)), requests)
      | (Inl (BaseException s), requests) \<Rightarrow> (Inl (BaseException s), requests))"

section \<open>Vocabulary of the statements\<close>

text \<open>
  The text-generation call fails (it raises) or returns an empty result: no \<open>text\<close>, or
  text that is empty once stripped.
\<close>

definition generation_fails_or_empty :: "cycle_env \<Rightarrow> bool" where
  "generation_fails_or_empty env =
     (case generate env of
        Inl e \<Rightarrow> True
      | Inr None \<Rightarrow> True
      | Inr (Some t) \<Rightarrow> strip t = [])"

text \<open>The same, with the raised exception an \<open>Exception\<close>, which the cycle catches.\<close>

definition generation_caught_or_empty :: "cycle_env \<Rightarrow> bool" where
  "generation_caught_or_empty env =
     (case generate env of
        Inl e \<Rightarrow> is_Exception e
      | Inr None \<Rightarrow> True
      | Inr (Some t) \<Rightarrow> strip t = [])"

text \<open>The credentials step passes, so the text-generation call is made.\<close>

definition client_ready :: "cycle_env \<Rightarrow> bool" where
  "client_ready env =
     (case initialize (use_vertex env) (get_secret env) (getenv_GOOGLE_API_KEY env) (api_key env) of
        Inl e \<Rightarrow> False
      | Inr key \<Rightarrow> (if use_vertex env then truthy (getenv_PROJECT_ID env) else True))"

text \<open>All four guards of \<open>maybe_update\<close> let the call through.\<close>

definition guards_pass :: "config \<Rightarrow> clock \<Rightarrow> manager \<Rightarrow> bool" where
  "guards_pass cfg clk m =
     (INCREMENTAL_UPDATES_ENABLED cfg \<and>
      \<not> now_before_lock clk - last_update_ts m
          < real_of_int (INCREMENTAL_SUMMARY_INTERVAL_SEC cfg) \<and>
      transcript_buffer m \<noteq> [] \<and>
      \<not> now_under_lock clk - last_update_ts m
          < real_of_int (INCREMENTAL_SUMMARY_INTERVAL_SEC cfg))"

text \<open>A sequence of \<open>add_transcript\<close> calls, in arrival order.\<close>

definition add_transcripts :: "string list \<Rightarrow> manager \<Rightarrow> manager" where
  "add_transcripts texts m = foldl (\<lambda>m' text. add_transcript text m') m texts"

text \<open>Every key and every string value of a message.\<close>

fun json_strings :: "json \<Rightarrow> string list" where
  "json_strings (JStr s) = [s]"
| "json_strings (JList xs) = concat (map json_strings xs)"
| "json_strings (JDict kvs) = concat (map (\<lambda>(k, v). k # json_strings v) kvs)"
| "json_strings _ = []"

text \<open>The message of \<open>execute_tool\<close>'s own two handlers for an exception they catch.\<close>

definition handler_text :: "exn \<Rightarrow> string" where
  "handler_text e =
     (case e of
        ClientError s \<Rightarrow> ''Failed to call cloud function: '' @ s
      | Exception s \<Rightarrow> ''Tool execution failed: '' @ s
      | BaseException s \<Rightarrow> s)"

text \<open>An object of the store that is an Incremental Summary State.\<close>

fun is_Manager :: "object \<Rightarrow> bool" where
  "is_Manager (Manager session_state m) = True"
| "is_Manager (Session session) = False"

text \<open>
  Runs in which transcripts arrive between the \<open>maybe_update\<close> calls.
\<close>

datatype event = AddTranscript string | MaybeUpdate call

fun run_events :: "config \<Rightarrow> event list \<Rightarrow> manager \<Rightarrow> outcome list \<times> manager" where
  "run_events cfg [] m = ([], m)"
| "run_events cfg (AddTranscript text # events) m = run_events cfg events (add_transcript text m)"
| "run_events cfg (MaybeUpdate (clk, env, session_state) # events) m =
     (case maybe_update cfg clk env session_state m of
        (out, m', fx) \<Rightarrow>
          (case run_events cfg events m' of
             (outs, m'') \<Rightarrow> (out # outs, m'')))"

fun calls_of :: "event list \<Rightarrow> call list" where
  "calls_of [] = []"
| "calls_of (AddTranscript text # events) = calls_of events"
| "calls_of (MaybeUpdate c # events) = c # calls_of events"

definition none_raised :: "outcome list \<Rightarrow> bool" where
  "none_raised outs = list_all (\<lambda>out. out = NotRun \<or> out = Completed) outs"

text \<open>Every remaining clock reading is less than the interval after the timestamp.\<close>

definition debounced :: "config \<Rightarrow> call list \<Rightarrow> manager \<Rightarrow> bool" where
  "debounced cfg calls m =
     list_all (\<lambda>t. t - last_update_ts m < real_of_int (INCREMENTAL_SUMMARY_INTERVAL_SEC cfg))
        (concat (map readings calls))"

text \<open>No later call of the run can pass the guards: the buffer is empty or the run is debounced.\<close>

definition blocked :: "config \<Rightarrow> call list \<Rightarrow> manager \<Rightarrow> bool" where
  "blocked cfg calls m = (transcript_buffer m = [] \<or> debounced cfg calls m)"

subsection \<open>Concrete inputs\<close>

text \<open>
  A development deployment whose credentials lookup succeeds, with a given outcome of the
  text-generation call and of \<open>send\<close>.
\<close>

definition env_with :: "exn + string option \<Rightarrow> exn option \<Rightarrow> cycle_env" where
  "env_with g s =
     \<lparr> use_vertex = False, get_secret = Inr ''key'', getenv_GOOGLE_API_KEY = None,
       api_key = None, getenv_PROJECT_ID = None, generate = g, send = s \<rparr>"

definition live :: SessionState where
  "live = SessionState_init\<lparr>genai_session := Some 1\<rparr>"

definition slides :: manager where
  "slides = manager_init\<lparr>transcript_buffer := [''Slide 1 covers X.'', ''Slide 2 covers Y.'']\<rparr>"

text \<open>A call that reads the clock at \<open>t\<close> and, after a cycle of one second, at \<open>t + 1\<close>.\<close>

definition at_time :: "real \<Rightarrow> clock" where
  "at_time t = \<lparr> now_before_lock = t, now_under_lock = t, now_after_cycle = t + 1 \<rparr>"

definition two_calls :: "call list" where
  "two_calls =
     [(at_time 1000, env_with (Inr (Some ''Summary: X, Y.'')) None, live),
      (at_time 1010, env_with (Inr (Some ''Summary: X, Y.'')) None, live)]"

definition failing_send_run :: "event list" where
  "failing_send_run =
     [MaybeUpdate (at_time 1000,
        env_with (Inr (Some ''Summary'')) (Some (Exception ''closed'')), live),
      AddTranscript ''Slide 3 covers Z.'',
      MaybeUpdate (at_time 1010,
        env_with (Inr (Some ''Summary'')) (Some (Exception ''closed'')), live)]"

text \<open>The same two calls with a transcript arriving between them and a \<open>send\<close> that returns.\<close>

definition arriving_run :: "event list" where
  "arriving_run =
     [MaybeUpdate (at_time 1000, env_with (Inr (Some ''Summary'')) None, live),
      AddTranscript ''Slide 3 covers Z.'',
      MaybeUpdate (at_time 1010, env_with (Inr (Some ''Summary'')) None, live)]"

definition empty_store :: store where
  "empty_store = \<lparr> objects = [], active_sessions = Map.empty \<rparr>"

definition tools :: cloud_functions where
  "tools = [''lookup'' \<mapsto> Some ''https://example.com/lookup'']"

definition no_query :: "params \<Rightarrow> exn + string" where
  "no_query ps = Inr []"

definition answers :: "exn + response \<Rightarrow> string option \<Rightarrow> exn + response" where
  "answers r url = r"

definition server_error :: response where
  "server_error =
     \<lparr> status = 500, text_result = Inr ''Internal Server Error'',
       json_result = Inl (Exception ''Expecting value'') \<rparr>"

definition bad_query :: "params \<Rightarrow> exn + string" where
  "bad_query ps = Inl (Exception ''not a valid non-string sequence or mapping object'')"

definition unreadable :: response where
  "unreadable =
     \<lparr> status = 502, text_result = Inl (ClientError ''Response payload is not completed''),
       json_result = Inl (Exception ''Expecting value'') \<rparr>"

definition found :: response where
  "found =
     \<lparr> status = 200, text_result = Inr ''{}'',
       json_result = Inr (JDict [(''result'', JStr ''ok'')]) \<rparr>"

definition not_json :: response where
  "not_json =
     \<lparr> status = 200, text_result = Inr ''<html>'',
       json_result = Inl (Exception ''Expecting value'') \<rparr>"

section \<open>Basic facts\<close>

lemma strip_Nil [simp]: "strip [] = []"
  by (simp add: strip_def lstrip_def rstrip_def)

lemma strip_examples:
  "strip ''Summary: X, Y.'' = ''Summary: X, Y.''"
  "strip ''Summary'' = ''Summary''"
  "strip '' a'' = ''a''"
  "strip '' '' = []"
  by (simp_all add: strip_def lstrip_def rstrip_def isspace_def)

lemma str_nat_500: "str_nat 500 = ''500''"
  by (simp add: str_nat.simps digit_char_def)

lemma live_session [simp]: "genai_session live = Some 1"
  by (simp add: live_def)

lemma env_with_simps [simp]:
  "generate (env_with g s) = g"
  "send (env_with g s) = s"
  "client_ready (env_with g s)"
  by (simp_all add: env_with_def client_ready_def initialize_def)

lemma guards_pass_slides [simp]: "guards_pass default_config (at_time 1000) slides"
  by (simp add: guards_pass_def default_config_def at_time_def slides_def manager_init_def)

subsection \<open>The generation block\<close>

lemma generate_summary_text_failed:
  "generation_fails_or_empty env \<Longrightarrow>
   fst (generate_summary_text cfg env text) = Inr [] \<or>
   (\<exists>e. fst (generate_summary_text cfg env text) = Inl e)"
  by (auto simp: generation_fails_or_empty_def generate_summary_text_def
      handle_generation_error_def Let_def split: sum.splits option.splits if_splits)

lemma generate_summary_text_caught:
  "client_ready env \<Longrightarrow> generation_caught_or_empty env \<Longrightarrow>
   fst (generate_summary_text cfg env text) = Inr []"
  by (auto simp: client_ready_def generation_caught_or_empty_def generate_summary_text_def
      handle_generation_error_def Let_def split: sum.splits option.splits if_splits)

lemma generate_summary_text_ok:
  "client_ready env \<Longrightarrow> generate env = Inr (Some t) \<Longrightarrow>
   generate_summary_text cfg env text =
     (Inr (strip t),
      [Generate (INCREMENTAL_SUMMARY_MODEL cfg) text (INCREMENTAL_SUMMARY_MAX_TOKENS cfg)])"
  by (auto simp: client_ready_def generate_summary_text_def split: sum.splits if_splits)

subsection \<open>One cycle and one call\<close>

lemma update_summary_locked_raise_buffer:
  "fst (update_summary_locked cfg env ss m) = Some e \<Longrightarrow>
   transcript_buffer (fst (snd (update_summary_locked cfg env ss m))) = []"
  by (auto simp: update_summary_locked_def Let_def
      split: option.splits prod.splits sum.splits if_splits)

lemma update_summary_locked_ts:
  "last_update_ts (fst (snd (update_summary_locked cfg env ss m))) = last_update_ts m"
  by (auto simp: update_summary_locked_def Let_def
      split: option.splits prod.splits sum.splits if_splits)

lemma update_summary_locked_generate:
  assumes "genai_session ss = Some h" "client_ready env"
  shows "take 1 (snd (snd (update_summary_locked cfg env ss m))) =
     [Generate (INCREMENTAL_SUMMARY_MODEL cfg)
        (user_text cfg (running_summary m) (strip (join ''\<newline>'' (transcript_buffer m))))
        (INCREMENTAL_SUMMARY_MAX_TOKENS cfg)]"
  using assms
  by (auto simp: update_summary_locked_def Let_def new_chunk_def client_ready_def
      generate_summary_text_def handle_generation_error_def
      split: prod.splits sum.splits option.splits if_splits)

lemma maybe_update_guard:
  "\<not> guards_pass cfg clk m \<Longrightarrow> maybe_update cfg clk env ss m = (NotRun, m, [])"
  by (auto simp: maybe_update_def guards_pass_def)

lemma maybe_update_NotRun_state:
  "fst (maybe_update cfg clk env ss m) = NotRun \<Longrightarrow>
   fst (snd (maybe_update cfg clk env ss m)) = m"
  by (auto simp: maybe_update_def split: if_splits prod.splits option.splits)

lemma maybe_update_ts:
  "last_update_ts (fst (snd (maybe_update cfg clk env ss m))) =
     (if fst (maybe_update cfg clk env ss m) = Completed then now_after_cycle clk
      else last_update_ts m)"
  using update_summary_locked_ts [of cfg env ss m]
  by (auto simp: maybe_update_def split: prod.splits option.splits)

text \<open>Once a cycle has run, its clock reading is the timestamp or the buffer is empty.\<close>

lemma maybe_update_ran:
  assumes "fst (maybe_update cfg clk env ss m) \<noteq> NotRun"
  shows "last_update_ts (fst (snd (maybe_update cfg clk env ss m))) = now_after_cycle clk \<or>
         transcript_buffer (fst (snd (maybe_update cfg clk env ss m))) = []"
proof (cases "update_summary_locked cfg env ss m")
  case (fields r m' fx)
  show ?thesis
  proof (cases r)
    case None
    with fields assms show ?thesis
      by (auto simp: maybe_update_def split: if_splits)
  next
    case (Some e)
    with fields update_summary_locked_raise_buffer [of cfg env ss m e]
    have "transcript_buffer m' = []" by simp
    with Some fields assms show ?thesis
      by (auto simp: maybe_update_def split: if_splits)
  qed
qed

lemma maybe_update_aborted:
  assumes "guards_pass cfg clk m" "genai_session ss = Some h" "client_ready env"
    "generation_caught_or_empty env"
  shows "maybe_update cfg clk env ss m =
     (Completed, m\<lparr>transcript_buffer := [], last_update_ts := now_after_cycle clk\<rparr>,
      snd (generate_summary_text cfg env
             (user_text cfg (running_summary m) (new_chunk (transcript_buffer m)))))"
  using assms generate_summary_text_caught [OF assms(3,4), of cfg
     "user_text cfg (running_summary m) (new_chunk (transcript_buffer m))"]
  by (auto simp: maybe_update_def guards_pass_def update_summary_locked_def Let_def
      split: prod.splits)

lemma maybe_update_success:
  assumes "guards_pass cfg clk m" "genai_session ss = Some h" "client_ready env"
    "generate env = Inr (Some t)" "strip t \<noteq> []"
  shows "fst (maybe_update cfg clk env ss m) =
           (case send env of
              None \<Rightarrow> Completed
            | Some e \<Rightarrow> if is_Exception e then Failed e else Escaped e)"
    and "fst (snd (maybe_update cfg clk env ss m)) =
           (case send env of
              None \<Rightarrow> m\<lparr>transcript_buffer := [], running_summary := strip t,
                         last_update_ts := now_after_cycle clk\<rparr>
            | Some e \<Rightarrow> m\<lparr>transcript_buffer := [], running_summary := strip t\<rparr>)"
  using assms
  by (auto simp: maybe_update_def guards_pass_def update_summary_locked_def Let_def
      generate_summary_text_ok split: prod.splits option.splits)

subsection \<open>Runs of calls\<close>

lemma maybe_update_calls_Cons:
  "fst (maybe_update_calls cfg ((clk, env, ss) # calls) m) =
     fst (maybe_update cfg clk env ss m) #
     fst (maybe_update_calls cfg calls (fst (snd (maybe_update cfg clk env ss m))))"
  by (simp split: prod.splits)

lemma run_events_MaybeUpdate:
  "fst (run_events cfg (MaybeUpdate (clk, env, ss) # events) m) =
     fst (maybe_update cfg clk env ss m) #
     fst (run_events cfg events (fst (snd (maybe_update cfg clk env ss m))))"
  by (simp split: prod.splits)

lemma add_transcript_ts [simp]: "last_update_ts (add_transcript text m) = last_update_ts m"
  by (simp add: add_transcript_def)

lemma within_interval_Cons:
  "within_interval cfg (c # calls) \<Longrightarrow> within_interval cfg calls"
  by (auto simp: within_interval_def list_all_iff)

lemma within_interval_head:
  "within_interval cfg ((clk, env, ss) # calls) \<Longrightarrow>
   list_all (\<lambda>t. t - now_after_cycle clk < real_of_int (INCREMENTAL_SUMMARY_INTERVAL_SEC cfg))
     (concat (map readings calls))"
  by (auto simp: within_interval_def list_all_iff readings_def)

lemma blocked_no_cycles:
  "blocked cfg calls m \<Longrightarrow> cycles_run (fst (maybe_update_calls cfg calls m)) = 0"
proof (induction calls arbitrary: m)
  case Nil
  show ?case by (simp add: cycles_run_def)
next
  case (Cons c calls)
  obtain clk env ss where c: "c = (clk, env, ss)" by (cases c)
  from Cons.prems have "\<not> guards_pass cfg clk m"
    by (auto simp: blocked_def debounced_def guards_pass_def c readings_def)
  then have mu: "maybe_update cfg clk env ss m = (NotRun, m, [])"
    by (rule maybe_update_guard)
  from Cons.prems have "blocked cfg calls m"
    by (auto simp: blocked_def debounced_def)
  from Cons.IH [OF this] show ?case
    by (simp add: c mu cycles_run_def maybe_update_calls_Cons del: maybe_update_calls.simps)
qed

lemma at_most_one_cycle:
  "within_interval cfg calls \<Longrightarrow> cycles_run (fst (maybe_update_calls cfg calls m)) \<le> 1"
proof (induction calls arbitrary: m)
  case Nil
  show ?case by (simp add: cycles_run_def)
next
  case (Cons c calls)
  obtain clk env ss where c: "c = (clk, env, ss)" by (cases c)
  obtain out m' fx where mu: "maybe_update cfg clk env ss m = (out, m', fx)"
    by (cases "maybe_update cfg clk env ss m")
  show ?case
  proof (cases "out = NotRun")
    case True
    with mu maybe_update_NotRun_state [of cfg clk env ss m] have "m' = m" by simp
    with Cons.IH [OF within_interval_Cons [OF Cons.prems], of m] True show ?thesis
      by (simp add: c mu cycles_run_def maybe_update_calls_Cons del: maybe_update_calls.simps)
  next
    case False
    with mu maybe_update_ran [of cfg clk env ss m]
    have "last_update_ts m' = now_after_cycle clk \<or> transcript_buffer m' = []" by simp
    with within_interval_head [of cfg clk env ss calls] Cons.prems c
    have "blocked cfg calls m'" by (auto simp: blocked_def debounced_def)
    from blocked_no_cycles [OF this] False show ?thesis
      by (simp add: c mu cycles_run_def maybe_update_calls_Cons del: maybe_update_calls.simps)
  qed
qed

text \<open>
  With transcripts arriving between the calls, the timestamp alone holds later calls
  back, so the bound needs every cycle of the run to return.
\<close>

lemma debounced_no_cycles:
  "debounced cfg (calls_of events) m \<Longrightarrow> cycles_run (fst (run_events cfg events m)) = 0"
proof (induction events arbitrary: m)
  case Nil
  show ?case by (simp add: cycles_run_def)
next
  case (Cons ev events)
  show ?case
  proof (cases ev)
    case (AddTranscript fragment)
    with Cons.prems have "debounced cfg (calls_of events) (add_transcript fragment m)"
      by (simp add: debounced_def)
    from Cons.IH [OF this] AddTranscript show ?thesis by simp
  next
    case (MaybeUpdate c)
    obtain clk env ss where c: "c = (clk, env, ss)" by (cases c)
    from Cons.prems MaybeUpdate have "\<not> guards_pass cfg clk m"
      by (auto simp: debounced_def guards_pass_def c readings_def)
    then have mu: "maybe_update cfg clk env ss m = (NotRun, m, [])"
      by (rule maybe_update_guard)
    from Cons.prems MaybeUpdate have "debounced cfg (calls_of events) m"
      by (auto simp: debounced_def)
    from Cons.IH [OF this] show ?thesis
      by (simp add: MaybeUpdate c mu cycles_run_def run_events_MaybeUpdate
          del: run_events.simps)
  qed
qed

lemma events_at_most_one_cycle:
  "within_interval cfg (calls_of events) \<Longrightarrow> none_raised (fst (run_events cfg events m)) \<Longrightarrow>
   cycles_run (fst (run_events cfg events m)) \<le> 1"
proof (induction events arbitrary: m)
  case Nil
  show ?case by (simp add: cycles_run_def)
next
  case (Cons ev events)
  show ?case
  proof (cases ev)
    case (AddTranscript fragment)
    with Cons show ?thesis by simp
  next
    case (MaybeUpdate c)
    obtain clk env ss where c: "c = (clk, env, ss)" by (cases c)
    let ?r = "maybe_update cfg clk env ss m"
    from Cons.prems(2) have rest: "none_raised (fst (run_events cfg events (fst (snd ?r))))"
      and head: "fst ?r = NotRun \<or> fst ?r = Completed"
      by (simp_all add: MaybeUpdate c none_raised_def run_events_MaybeUpdate
          del: run_events.simps)
    from Cons.prems(1) have wi: "within_interval cfg (calls_of events)"
      using within_interval_Cons [of cfg c "calls_of events"] by (simp add: MaybeUpdate)
    show ?thesis
    proof (cases "fst ?r = NotRun")
      case True
      with maybe_update_NotRun_state [of cfg clk env ss m] have "fst (snd ?r) = m" by simp
      with Cons.IH [OF wi, of m] rest True show ?thesis
        by (simp add: MaybeUpdate c cycles_run_def run_events_MaybeUpdate
            del: run_events.simps)
    next
      case False
      with head have "fst ?r = Completed" by simp
      with maybe_update_ts [of cfg clk env ss m]
      have "last_update_ts (fst (snd ?r)) = now_after_cycle clk" by simp
      with within_interval_head [of cfg clk env ss "calls_of events"] Cons.prems(1)
      have "debounced cfg (calls_of events) (fst (snd ?r))"
        by (simp add: debounced_def MaybeUpdate c)
      from debounced_no_cycles [OF this] False show ?thesis
        by (simp add: MaybeUpdate c cycles_run_def run_events_MaybeUpdate
            del: run_events.simps)
    qed
  qed
qed

subsection \<open>The buffer\<close>

lemma add_transcripts_buffer:
  "transcript_buffer (add_transcripts texts m) =
     transcript_buffer m @ filter (\<lambda>t. t \<noteq> []) texts"
  unfolding add_transcripts_def
  by (induction texts arbitrary: m) (simp_all add: add_transcript_def)

lemma add_transcripts_summary:
  "running_summary (add_transcripts texts m) = running_summary m"
  unfolding add_transcripts_def
  by (induction texts arbitrary: m) (simp_all add: add_transcript_def)

subsection \<open>The tool executor\<close>

lemma execute_tool_escapes:
  "fst (execute_tool functions urlencode http_get tool_name ps) = Inl e \<Longrightarrow> \<not> is_Exception e"
  by (auto simp: execute_tool_def split: prod.splits sum.splits exn.splits)

lemma execute_tool_unknown:
  "functions tool_name = None \<Longrightarrow>
   execute_tool functions urlencode http_get tool_name ps =
     (Inr (error_dict (''Unknown tool: '' @ tool_name)), [])"
  by (simp add: execute_tool_def execute_tool_body_def)

lemma execute_tool_status:
  assumes "functions tool_name = Some base_url" "urlencode ps = Inr q"
    "http_get (function_url base_url ps q) = Inr r" "text_result r = Inr body"
    "status r \<noteq> 200"
  shows "fst (execute_tool functions urlencode http_get tool_name ps) =
     Inr (error_dict (''Cloud function returned status '' @ str_nat (status r)))"
  using assms by (simp add: execute_tool_def execute_tool_body_def)

lemma execute_tool_urlencode:
  assumes "functions tool_name = Some base_url" "urlencode ps = Inl e"
  shows "execute_tool functions urlencode http_get tool_name ps =
     (if is_Exception e then Inr (error_dict (handler_text e)) else Inl e, [])"
  using assms
  by (cases e) (simp_all add: execute_tool_def execute_tool_body_def handler_text_def)

lemma execute_tool_request:
  assumes "functions tool_name = Some base_url" "urlencode ps = Inr q"
    "http_get (function_url base_url ps q) = Inl e"
  shows "fst (execute_tool functions urlencode http_get tool_name ps) =
     (if is_Exception e then Inr (error_dict (handler_text e)) else Inl e)"
  using assms
  by (cases e) (simp_all add: execute_tool_def execute_tool_body_def handler_text_def)

lemma execute_tool_body_read:
  assumes "functions tool_name = Some base_url" "urlencode ps = Inr q"
    "http_get (function_url base_url ps q) = Inr r" "text_result r = Inl e"
  shows "fst (execute_tool functions urlencode http_get tool_name ps) =
     (if is_Exception e then Inr (error_dict (handler_text e)) else Inl e)"
  using assms
  by (cases e) (simp_all add: execute_tool_def execute_tool_body_def handler_text_def)

lemma execute_tool_json:
  assumes "functions tool_name = Some base_url" "urlencode ps = Inr q"
    "http_get (function_url base_url ps q) = Inr r" "text_result r = Inr body"
    "status r = 200" "json_result r = Inl e"
  shows "fst (execute_tool functions urlencode http_get tool_name ps) =
     (if is_Exception e
      then Inr (error_dict (''Invalid JSON response from cloud function: '' @ str_exn e))
      else Inl e)"
  using assms
  by (cases e) (simp_all add: execute_tool_def execute_tool_body_def)

lemma execute_tool_parsed:
  assumes "functions tool_name = Some base_url" "urlencode ps = Inr q"
    "http_get (function_url base_url ps q) = Inr r" "text_result r = Inr body"
    "status r = 200" "json_result r = Inr v"
  shows "fst (execute_tool functions urlencode http_get tool_name ps) = Inr v"
  using assms by (simp add: execute_tool_def execute_tool_body_def)

section \<open>The claims\<close>

text \<open>
  C1. With a live session attached, a cycle whose text-generation call fails or returns an
  empty result leaves \<open>running_summary\<close> as it was and the transcript buffer empty, for
  every buffer and every prior summary.
\<close>

theorem failed_compaction_keeps_summary_and_clears_buffer:
  assumes "genai_session session_state = Some h" and "generation_fails_or_empty env"
  shows "running_summary (fst (snd (update_summary_locked cfg env session_state m))) =
           running_summary m \<and>
         transcript_buffer (fst (snd (update_summary_locked cfg env session_state m))) = []"
  using assms generate_summary_text_failed [OF assms(2), of cfg
      "user_text cfg (running_summary m) (new_chunk (transcript_buffer m))"]
  by (auto simp: update_summary_locked_def Let_def split: prod.splits sum.splits)

text \<open>C1 at a concrete input: the generation call raises, the prior summary is \<open>old\<close>.\<close>

theorem failed_compaction_witness:
  "genai_session live = Some 1 \<and>
   generation_fails_or_empty (env_with (Inl (Exception ''unavailable'')) None) \<and>
   running_summary (fst (snd (update_summary_locked default_config
      (env_with (Inl (Exception ''unavailable'')) None) live
      (slides\<lparr>running_summary := ''old''\<rparr>)))) = ''old'' \<and>
   transcript_buffer (fst (snd (update_summary_locked default_config
      (env_with (Inl (Exception ''unavailable'')) None) live
      (slides\<lparr>running_summary := ''old''\<rparr>)))) = []"
  using failed_compaction_keeps_summary_and_clears_buffer
      [of live 1 "env_with (Inl (Exception ''unavailable'')) None" default_config
        "slides\<lparr>running_summary := ''old''\<rparr>"]
  by (simp add: generation_fails_or_empty_def)

text \<open>
  C2, as stated, fails: two \<open>maybe_update\<close> calls ten seconds apart, with an interval of
  sixty, run two cycles when the live session's \<open>send\<close> raises in the first (so the
  timestamp is not set) and a transcript arrives before the second.
\<close>

theorem second_cycle_within_interval_after_failed_send:
  "within_interval default_config (calls_of failing_send_run) \<and>
   cycles_run (fst (run_events default_config failing_send_run slides)) = 2"
proof -
  let ?env = "env_with (Inr (Some ''Summary'')) (Some (Exception ''closed''))"
  let ?m = "slides\<lparr>transcript_buffer := [], running_summary := ''Summary''\<rparr>"
  have wi: "within_interval default_config (calls_of failing_send_run)"
    by (simp add: failing_send_run_def within_interval_def readings_def at_time_def
        default_config_def)
  have 1: "fst (maybe_update default_config (at_time 1000) ?env live slides) =
       Failed (Exception ''closed'')"
    and 2: "fst (snd (maybe_update default_config (at_time 1000) ?env live slides)) = ?m"
    using maybe_update_success [of default_config "at_time 1000" slides live 1 ?env
        "''Summary''"]
    by (simp_all add: strip_examples)
  have g: "guards_pass default_config (at_time 1010) (add_transcript ''Slide 3 covers Z.'' ?m)"
    by (simp add: guards_pass_def default_config_def at_time_def slides_def manager_init_def
        add_transcript_def)
  have 3: "fst (maybe_update default_config (at_time 1010) ?env live
              (add_transcript ''Slide 3 covers Z.'' ?m)) = Failed (Exception ''closed'')"
    using maybe_update_success(1) [OF g, of live 1 ?env "''Summary''"]
    by (simp add: strip_examples)
  have "fst (run_events default_config failing_send_run slides) =
     [Failed (Exception ''closed''), Failed (Exception ''closed'')]"
    unfolding failing_send_run_def
    by (simp add: run_events_MaybeUpdate 1 2 3 del: run_events.simps(3))
  with wi show ?thesis by (simp add: cycles_run_def)
qed

text \<open>
  C2, amended. A call of \<open>maybe_update\<close> with the feature flag off, or with less than the
  interval elapsed since \<open>last_update_ts\<close>, or with an empty buffer, returns without running
  a cycle, without an effect and with the manager unchanged. Of a sequence of \<open>maybe_update\<close>
  calls whose clock readings all lie less than the interval apart, at most one runs a
  cycle when transcripts arrive between the calls and every cycle of the sequence returns
  without raising; and at most one runs a cycle, whatever the cycles do, when no
  transcript arrives between the calls.
\<close>

theorem maybe_update_guards_and_debounce:
  "(\<not> INCREMENTAL_UPDATES_ENABLED cfg \<or>
    now_before_lock clk - last_update_ts m
      < real_of_int (INCREMENTAL_SUMMARY_INTERVAL_SEC cfg) \<or>
    transcript_buffer m = []
    \<longrightarrow> maybe_update cfg clk env session_state m = (NotRun, m, [])) \<and>
   (within_interval cfg (calls_of events) \<and> none_raised (fst (run_events cfg events m1))
    \<longrightarrow> cycles_run (fst (run_events cfg events m1)) \<le> 1) \<and>
   (within_interval cfg calls \<longrightarrow> cycles_run (fst (maybe_update_calls cfg calls m0)) \<le> 1)"
  using at_most_one_cycle [of cfg calls m0] events_at_most_one_cycle [of cfg events m1]
  by (auto simp: maybe_update_def)

text \<open>
  C2 amended, at concrete inputs: a call nine seconds after the last update; two calls ten
  seconds apart with a transcript arriving between them, the first cycle returning; and
  the same two calls with nothing arriving between them.
\<close>

theorem maybe_update_guards_and_debounce_witness:
  "now_before_lock (at_time 1010) - last_update_ts (slides\<lparr>last_update_ts := 1001\<rparr>)
     < real_of_int (INCREMENTAL_SUMMARY_INTERVAL_SEC default_config) \<and>
   maybe_update default_config (at_time 1010) (env_with (Inr (Some ''Summary: X, Y.'')) None)
     live (slides\<lparr>last_update_ts := 1001\<rparr>) = (NotRun, slides\<lparr>last_update_ts := 1001\<rparr>, []) \<and>
   within_interval default_config (calls_of arriving_run) \<and>
   fst (run_events default_config arriving_run slides) = [Completed, NotRun] \<and>
   none_raised (fst (run_events default_config arriving_run slides)) \<and>
   cycles_run (fst (run_events default_config arriving_run slides)) \<le> 1 \<and>
   within_interval default_config two_calls \<and>
   cycles_run (fst (maybe_update_calls default_config two_calls slides)) \<le> 1"
proof -
  let ?env = "env_with (Inr (Some ''Summary'')) None"
  let ?m = "slides\<lparr>transcript_buffer := [], running_summary := ''Summary'',
              last_update_ts := now_after_cycle (at_time 1000)\<rparr>"
  have elapsed:
    "now_before_lock (at_time 1010) - last_update_ts (slides\<lparr>last_update_ts := 1001\<rparr>)
       < real_of_int (INCREMENTAL_SUMMARY_INTERVAL_SEC default_config)"
    by (simp add: at_time_def default_config_def)
  have apart: "within_interval default_config two_calls"
    by (simp add: two_calls_def within_interval_def readings_def at_time_def default_config_def)
  have arriving: "within_interval default_config (calls_of arriving_run)"
    by (simp add: arriving_run_def within_interval_def readings_def at_time_def
        default_config_def)
  have 1: "fst (maybe_update default_config (at_time 1000) ?env live slides) = Completed"
    and 2: "fst (snd (maybe_update default_config (at_time 1000) ?env live slides)) = ?m"
    using maybe_update_success [of default_config "at_time 1000" slides live 1 ?env
        "''Summary''"]
    by (simp_all add: strip_examples)
  have "\<not> guards_pass default_config (at_time 1010) (add_transcript ''Slide 3 covers Z.'' ?m)"
    by (simp add: guards_pass_def default_config_def at_time_def)
  then have 3: "maybe_update default_config (at_time 1010) ?env live
      (add_transcript ''Slide 3 covers Z.'' ?m) =
        (NotRun, add_transcript ''Slide 3 covers Z.'' ?m, [])"
    by (rule maybe_update_guard)
  have outs: "fst (run_events default_config arriving_run slides) = [Completed, NotRun]"
    unfolding arriving_run_def
    by (simp add: run_events_MaybeUpdate 1 2 3 del: run_events.simps(3))
  from elapsed apart arriving outs show ?thesis
    using maybe_update_guards_and_debounce
        [of default_config "at_time 1010" "slides\<lparr>last_update_ts := 1001\<rparr>"
          "env_with (Inr (Some ''Summary: X, Y.'')) None" live arriving_run slides
          two_calls slides]
    by (simp add: none_raised_def)
qed

text \<open>
  C3, as stated, fails: a cycle that aborts because the generation call raised still
  returns, and \<open>maybe_update\<close> then moves the timestamp from 0 to the clock reading 1001.
\<close>

theorem timestamp_advances_after_failed_generation:
  "generate (env_with (Inl (Exception ''unavailable'')) None) = Inl (Exception ''unavailable'') \<and>
   running_summary (fst (snd (maybe_update default_config (at_time 1000)
      (env_with (Inl (Exception ''unavailable'')) None) live slides))) = running_summary slides \<and>
   last_update_ts slides = 0 \<and>
   last_update_ts (fst (snd (maybe_update default_config (at_time 1000)
      (env_with (Inl (Exception ''unavailable'')) None) live slides))) = 1001"
  using maybe_update_aborted [of default_config "at_time 1000" slides live 1
      "env_with (Inl (Exception ''unavailable'')) None"]
  by (simp add: generation_caught_or_empty_def)
     (simp add: slides_def manager_init_def at_time_def)

text \<open>
  C3, amended. \<open>last_update_ts\<close> records the clock reading taken after the last cycle that
  returned without raising: \<open>maybe_update\<close> sets it exactly when the cycle returns and
  leaves it alone otherwise. A cycle that aborts because the generation call raised an
  \<open>Exception\<close> or returned an empty result returns, so the timestamp advances while
  \<open>running_summary\<close> stays. A cycle that replaces \<open>running_summary\<close> advances the timestamp
  exactly when the live session's \<open>send\<close> returns.
\<close>

theorem last_update_ts_records_returned_cycle:
  "last_update_ts (fst (snd (maybe_update cfg clk env session_state m))) =
     (if fst (maybe_update cfg clk env session_state m) = Completed then now_after_cycle clk
      else last_update_ts m) \<and>
   (guards_pass cfg clk m \<and> genai_session session_state = Some h \<and> client_ready env \<and>
    generation_caught_or_empty env
    \<longrightarrow> fst (maybe_update cfg clk env session_state m) = Completed \<and>
        running_summary (fst (snd (maybe_update cfg clk env session_state m))) =
          running_summary m) \<and>
   (guards_pass cfg clk m \<and> genai_session session_state = Some h \<and> client_ready env \<and>
    generate env = Inr (Some t) \<and> strip t \<noteq> []
    \<longrightarrow> running_summary (fst (snd (maybe_update cfg clk env session_state m))) = strip t \<and>
        (fst (maybe_update cfg clk env session_state m) = Completed) = (send env = None))"
  using maybe_update_ts [of cfg clk env session_state m]
    maybe_update_aborted [of cfg clk m session_state h env]
    maybe_update_success [of cfg clk m session_state h env t]
  by (auto split: option.splits)

text \<open>
  C3 amended, at concrete inputs: one call whose generation raises, one whose generation
  and send succeed.
\<close>

theorem last_update_ts_records_returned_cycle_witness:
  "guards_pass default_config (at_time 1000) slides \<and> genai_session live = Some 1 \<and>
   client_ready (env_with (Inl (Exception ''unavailable'')) None) \<and>
   generation_caught_or_empty (env_with (Inl (Exception ''unavailable'')) None) \<and>
   fst (maybe_update default_config (at_time 1000)
      (env_with (Inl (Exception ''unavailable'')) None) live slides) = Completed \<and>
   client_ready (env_with (Inr (Some ''Summary: X, Y.'')) None) \<and>
   generate (env_with (Inr (Some ''Summary: X, Y.'')) None) = Inr (Some ''Summary: X, Y.'') \<and>
   strip ''Summary: X, Y.'' \<noteq> [] \<and>
   fst (maybe_update default_config (at_time 1000)
      (env_with (Inr (Some ''Summary: X, Y.'')) None) live slides) = Completed \<and>
   last_update_ts (fst (snd (maybe_update default_config (at_time 1000)
      (env_with (Inr (Some ''Summary: X, Y.'')) None) live slides))) =
     now_after_cycle (at_time 1000)"
  using last_update_ts_records_returned_cycle
      [of default_config "at_time 1000" "env_with (Inl (Exception ''unavailable'')) None"
        live slides 1 "''Summary: X, Y.''"]
    last_update_ts_records_returned_cycle
      [of default_config "at_time 1000" "env_with (Inr (Some ''Summary: X, Y.'')) None"
        live slides 1 "''Summary: X, Y.''"]
  by (simp add: generation_caught_or_empty_def strip_examples)

text \<open>
  C4, as stated, fails: the generation call returns the non-empty text \<open>" a"\<close>, and after
  the cycle \<open>get_summary\<close> is not that text (it is \<open>"a"\<close>).
\<close>

theorem summary_is_not_exactly_the_generated_text:
  "genai_session live = Some 1 \<and> transcript_buffer slides \<noteq> [] \<and>
   generate (env_with (Inr (Some '' a'')) None) = Inr (Some '' a'') \<and> '' a'' \<noteq> [] \<and>
   get_summary (fst (snd (update_summary_locked default_config
      (env_with (Inr (Some '' a'')) None) live slides))) \<noteq> '' a''"
  by (simp add: update_summary_locked_def Let_def get_summary_def generate_summary_text_ok
      strip_examples slides_def manager_init_def)

text \<open>
  C4, amended. With a live session attached, after a cycle whose text-generation call
  returns text that is non-empty once its leading and trailing whitespace is stripped,
  \<open>get_summary\<close> returns that stripped text and the transcript buffer is empty.
\<close>

theorem successful_compaction_sets_stripped_summary:
  assumes "genai_session session_state = Some h" and "client_ready env"
      and "generate env = Inr (Some t)" and "strip t \<noteq> []"
  shows "get_summary (fst (snd (update_summary_locked cfg env session_state m))) = strip t \<and>
         transcript_buffer (fst (snd (update_summary_locked cfg env session_state m))) = []"
  using assms
  by (simp add: update_summary_locked_def Let_def get_summary_def generate_summary_text_ok)

text \<open>C4 amended, at the spec's scenario: two slides buffered, the call returns a summary.\<close>

theorem successful_compaction_witness:
  "genai_session live = Some 1 \<and> client_ready (env_with (Inr (Some ''Summary: X, Y.'')) None) \<and>
   generate (env_with (Inr (Some ''Summary: X, Y.'')) None) = Inr (Some ''Summary: X, Y.'') \<and>
   strip ''Summary: X, Y.'' \<noteq> [] \<and>
   get_summary (fst (snd (update_summary_locked default_config
      (env_with (Inr (Some ''Summary: X, Y.'')) None) live slides))) = ''Summary: X, Y.'' \<and>
   transcript_buffer (fst (snd (update_summary_locked default_config
      (env_with (Inr (Some ''Summary: X, Y.'')) None) live slides))) = []"
  using successful_compaction_sets_stripped_summary
      [of live 1 "env_with (Inr (Some ''Summary: X, Y.'')) None" "''Summary: X, Y.''"
        default_config slides]
  by (simp add: strip_examples)

text \<open>
  C5, as stated, fails: after \<open>add_transcript(" a")\<close> and \<open>add_transcript("b")\<close> the chunk
  fed into the cycle is \<open>"a\nb"\<close>, which is neither the concatenation of the two fragments
  nor their join with a newline.
\<close>

theorem new_chunk_is_not_the_concatenation:
  "take 1 (snd (snd (update_summary_locked default_config
      (env_with (Inr (Some ''Summary'')) None) live
      (add_transcripts ['' a'', ''b''] manager_init)))) =
     [Generate ''gemini-2.5-flash'' (user_text default_config [] ''a\<newline>b'') 1024] \<and>
   ''a\<newline>b'' \<noteq> concat ['' a'', ''b''] \<and>
   ''a\<newline>b'' \<noteq> join ''\<newline>'' ['' a'', ''b'']"
  using update_summary_locked_generate [of live 1 "env_with (Inr (Some ''Summary'')) None"
      default_config "add_transcripts ['' a'', ''b''] manager_init"]
  by (simp add: add_transcripts_buffer add_transcripts_summary)
     (simp add: manager_init_def default_config_def strip_def lstrip_def rstrip_def isspace_def)

text \<open>
  C5, amended. Each \<open>add_transcript\<close> call with non-empty text appends exactly that fragment
  to the end of the buffer and each call with empty text leaves the buffer unchanged, so
  after a sequence of calls the buffer is the old one followed by the non-empty fragments
  in arrival order. The chunk fed into the next cycle's generation call is those buffered
  fragments joined with a newline between neighbours, with the whitespace at both ends of
  the joined text stripped.
\<close>

theorem buffer_order_and_new_chunk:
  "transcript_buffer (add_transcript text m) =
     (if text = [] then transcript_buffer m else transcript_buffer m @ [text]) \<and>
   transcript_buffer (add_transcripts texts m) =
     transcript_buffer m @ filter (\<lambda>t. t \<noteq> []) texts \<and>
   (genai_session session_state = Some h \<and> client_ready env \<longrightarrow>
    take 1 (snd (snd (update_summary_locked cfg env session_state (add_transcripts texts m)))) =
      [Generate (INCREMENTAL_SUMMARY_MODEL cfg)
         (user_text cfg (running_summary m)
            (strip (join ''\<newline>'' (transcript_buffer m @ filter (\<lambda>t. t \<noteq> []) texts))))
         (INCREMENTAL_SUMMARY_MAX_TOKENS cfg)])"
  using update_summary_locked_generate [of session_state h env cfg "add_transcripts texts m"]
  by (simp add: add_transcripts_buffer add_transcripts_summary add_transcript_def)

text \<open>C5 amended, at a concrete input: three arrivals, the second one empty.\<close>

theorem buffer_order_and_new_chunk_witness:
  "genai_session live = Some 1 \<and> client_ready (env_with (Inr (Some ''Summary'')) None) \<and>
   transcript_buffer (add_transcripts [''Slide 1 covers X.'', [], ''Slide 2 covers Y.'']
      manager_init) = [''Slide 1 covers X.'', ''Slide 2 covers Y.''] \<and>
   take 1 (snd (snd (update_summary_locked default_config
      (env_with (Inr (Some ''Summary'')) None) live
      (add_transcripts [''Slide 1 covers X.'', [], ''Slide 2 covers Y.''] manager_init)))) =
     [Generate ''gemini-2.5-flash''
        (user_text default_config [] ''Slide 1 covers X.\<newline>Slide 2 covers Y.'') 1024]"
  using buffer_order_and_new_chunk
      [of "[]" manager_init "[''Slide 1 covers X.'', [], ''Slide 2 covers Y.'']" live 1
        "env_with (Inr (Some ''Summary'')) None" default_config]
  by (simp add: manager_init_def default_config_def strip_def lstrip_def rstrip_def isspace_def)

text \<open>
  C6. The update a cycle sends has the two parts and \<open>turn_complete\<close> false, but it is not
  addressed with \<open>summary_part_id\<close>: at the spec's scenario the message sent is the one
  below, and the identifier \<open>running_summary\<close> is none of its keys or values.
\<close>

theorem summary_update_carries_no_part_id:
  "summary_part_id slides = ''running_summary'' \<and>
   snd (snd (update_summary_locked default_config
      (env_with (Inr (Some ''Summary: X, Y.'')) None) live slides)) =
     [Generate ''gemini-2.5-flash''
        (user_text default_config [] ''Slide 1 covers X.\<newline>Slide 2 covers Y.'') 1024,
      Send (JDict [(''client_content'',
        JDict [(''turns'',
                 JList [JDict [(''role'', JStr ''user''),
                               (''parts'',
                                 JList [JDict [(''text'', JStr ''[Running summary updated]'')],
                                        JDict [(''text'', JStr ''Summary: X, Y.'')]])]]),
               (''turn_complete'', JBool False)])])] \<and>
   summary_part_id slides \<notin> set (json_strings (summary_update_message ''Summary: X, Y.''))"
  by (simp add: update_summary_locked_def Let_def generate_summary_text_ok strip_examples)
     (simp add: default_config_def slides_def manager_init_def summary_update_message_def
        new_chunk_def strip_def lstrip_def rstrip_def isspace_def)

text \<open>
  C7, as stated, fails: when the task running \<open>execute_tool\<close> is cancelled during the
  request, \<open>CancelledError\<close> is not an \<open>Exception\<close> and leaves \<open>execute_tool\<close>.
\<close>

theorem execute_tool_cancellation_escapes:
  "fst (execute_tool tools no_query (answers (Inl (BaseException ''CancelledError'')))
          ''lookup'' []) = Inl (BaseException ''CancelledError'')"
  by (simp add: execute_tool_def execute_tool_body_def tools_def no_query_def answers_def
      function_url_def)

text \<open>
  C7, amended. No \<open>Exception\<close> leaves \<open>execute_tool\<close>: an exception that leaves it is not an
  instance of \<open>Exception\<close>. An unknown tool name gives \<open>{"error": "Unknown tool: <name>"}\<close>
  with no request made. For a known tool, an exception raised while the arguments are
  encoded, while the request is made or while the body is read (this comes before the
  status is looked at) gives \<open>{"error": "Failed to call cloud function: ..."}\<close> or
  \<open>{"error": "Tool execution failed: ..."}\<close> when it is an \<open>Exception\<close>, and leaves
  \<open>execute_tool\<close> when it is not. Once the body is read, a status \<open>N\<close> other than 200 gives
  \<open>{"error": "Cloud function returned status N"}\<close>; with status 200, a body that is not
  JSON gives \<open>{"error": "Invalid JSON response from cloud function: ..."}\<close> when the parser
  raises an \<open>Exception\<close> and the exception leaves \<open>execute_tool\<close> when it is not one, and a
  body that is JSON is returned parsed.
\<close>

theorem execute_tool_error_objects:
  "(fst (execute_tool fns urlencode http_get tool_name ps) = Inl e
    \<longrightarrow> \<not> is_Exception e) \<and>
   (fns tool_name = None
    \<longrightarrow> execute_tool fns urlencode http_get tool_name ps =
          (Inr (error_dict (''Unknown tool: '' @ tool_name)), [])) \<and>
   (fns tool_name = Some base_url \<and> urlencode ps = Inl e1
    \<longrightarrow> execute_tool fns urlencode http_get tool_name ps =
          (if is_Exception e1 then Inr (error_dict (handler_text e1)) else Inl e1, [])) \<and>
   (fns tool_name = Some base_url \<and> urlencode ps = Inr q \<and>
    http_get (function_url base_url ps q) = Inl e2
    \<longrightarrow> fst (execute_tool fns urlencode http_get tool_name ps) =
          (if is_Exception e2 then Inr (error_dict (handler_text e2)) else Inl e2)) \<and>
   (fns tool_name = Some base_url \<and> urlencode ps = Inr q \<and>
    http_get (function_url base_url ps q) = Inr r \<and> text_result r = Inl e3
    \<longrightarrow> fst (execute_tool fns urlencode http_get tool_name ps) =
          (if is_Exception e3 then Inr (error_dict (handler_text e3)) else Inl e3)) \<and>
   (fns tool_name = Some base_url \<and> urlencode ps = Inr q \<and>
    http_get (function_url base_url ps q) = Inr r \<and> text_result r = Inr body \<and>
    status r \<noteq> 200
    \<longrightarrow> fst (execute_tool fns urlencode http_get tool_name ps) =
          Inr (error_dict (''Cloud function returned status '' @ str_nat (status r)))) \<and>
   (fns tool_name = Some base_url \<and> urlencode ps = Inr q \<and>
    http_get (function_url base_url ps q) = Inr r \<and> text_result r = Inr body \<and>
    status r = 200 \<and> json_result r = Inl e4
    \<longrightarrow> fst (execute_tool fns urlencode http_get tool_name ps) =
          (if is_Exception e4
           then Inr (error_dict (''Invalid JSON response from cloud function: '' @ str_exn e4))
           else Inl e4)) \<and>
   (fns tool_name = Some base_url \<and> urlencode ps = Inr q \<and>
    http_get (function_url base_url ps q) = Inr r \<and> text_result r = Inr body \<and>
    status r = 200 \<and> json_result r = Inr v
    \<longrightarrow> fst (execute_tool fns urlencode http_get tool_name ps) = Inr v)"
  using execute_tool_escapes [of fns urlencode http_get tool_name ps e]
    execute_tool_unknown [of fns tool_name urlencode http_get ps]
    execute_tool_urlencode [of fns tool_name base_url urlencode ps e1 http_get]
    execute_tool_request [of fns tool_name base_url urlencode ps q http_get e2]
    execute_tool_body_read [of fns tool_name base_url urlencode ps q http_get r e3]
    execute_tool_status [of fns tool_name base_url urlencode ps q http_get r body]
    execute_tool_json [of fns tool_name base_url urlencode ps q http_get r body e4]
    execute_tool_parsed [of fns tool_name base_url urlencode ps q http_get r body v]
  by blast

text \<open>
  C7 amended, at concrete inputs: the unknown tool \<open>foo\<close> on the table of config.py, and on
  a table with one entry: arguments that cannot be encoded, a refused connection, a 502
  reply whose body cannot be read, a 500 reply, a body that is not JSON, a body that is,
  and a cancellation.
\<close>

theorem execute_tool_error_objects_witness:
  "CLOUD_FUNCTIONS ''foo'' = None \<and>
   execute_tool CLOUD_FUNCTIONS no_query (answers (Inr server_error)) ''foo'' [] =
     (Inr (JDict [(''error'', JStr ''Unknown tool: foo'')]), []) \<and>
   tools ''lookup'' = Some (Some ''https://example.com/lookup'') \<and>
   execute_tool tools bad_query (answers (Inr server_error)) ''lookup'' [] =
     (Inr (JDict [(''error'', JStr
        ''Tool execution failed: not a valid non-string sequence or mapping object'')]), []) \<and>
   fst (execute_tool tools no_query (answers (Inl (ClientError ''Cannot connect to host'')))
          ''lookup'' []) =
     Inr (JDict [(''error'', JStr ''Failed to call cloud function: Cannot connect to host'')]) \<and>
   status unreadable \<noteq> 200 \<and>
   fst (execute_tool tools no_query (answers (Inr unreadable)) ''lookup'' []) =
     Inr (JDict [(''error'',
            JStr ''Failed to call cloud function: Response payload is not completed'')]) \<and>
   status server_error \<noteq> 200 \<and>
   fst (execute_tool tools no_query (answers (Inr server_error)) ''lookup'' []) =
     Inr (JDict [(''error'', JStr ''Cloud function returned status 500'')]) \<and>
   status not_json = 200 \<and> json_result not_json = Inl (Exception ''Expecting value'') \<and>
   fst (execute_tool tools no_query (answers (Inr not_json)) ''lookup'' []) =
     Inr (JDict [(''error'',
            JStr ''Invalid JSON response from cloud function: Expecting value'')]) \<and>
   fst (execute_tool tools no_query (answers (Inr found)) ''lookup'' []) =
     Inr (JDict [(''result'', JStr ''ok'')]) \<and>
   fst (execute_tool tools no_query (answers (Inl (BaseException ''CancelledError'')))
          ''lookup'' []) = Inl (BaseException ''CancelledError'') \<and>
   \<not> is_Exception (BaseException ''CancelledError'')"
proof -
  note t = execute_tool_error_objects
  have table: "CLOUD_FUNCTIONS ''foo'' = None"
    "tools ''lookup'' = Some (Some ''https://example.com/lookup'')"
    by (simp_all add: CLOUD_FUNCTIONS_def tools_def)
  have world: "no_query [] = Inr []"
    "bad_query [] = Inl (Exception ''not a valid non-string sequence or mapping object'')"
    "\<And>r u. answers r u = r"
    by (simp_all add: no_query_def bad_query_def answers_def)
  have responses: "status server_error = 500"
    "text_result server_error = Inr ''Internal Server Error''"
    "status unreadable = 502"
    "text_result unreadable = Inl (ClientError ''Response payload is not completed'')"
    "status not_json = 200" "text_result not_json = Inr ''<html>''"
    "json_result not_json = Inl (Exception ''Expecting value'')"
    "status found = 200" "text_result found = Inr ''{}''"
    "json_result found = Inr (JDict [(''result'', JStr ''ok'')])"
    by (simp_all add: server_error_def unreadable_def not_json_def found_def)
  have cancelled:
    "fst (execute_tool tools no_query (answers (Inl (BaseException ''CancelledError'')))
            ''lookup'' []) = Inl (BaseException ''CancelledError'')"
    by (simp add: execute_tool_def execute_tool_body_def table world function_url_def)
  show ?thesis
    using
      t [where fns = CLOUD_FUNCTIONS and urlencode = no_query
           and http_get = "answers (Inr server_error)" and tool_name = "''foo''" and ps = "[]"]
      t [where fns = tools and urlencode = bad_query
           and http_get = "answers (Inr server_error)" and tool_name = "''lookup''"
           and ps = "[]" and base_url = "Some ''https://example.com/lookup''"
           and ?e1.0 = "Exception ''not a valid non-string sequence or mapping object''"]
      t [where fns = tools and urlencode = no_query
           and http_get = "answers (Inl (ClientError ''Cannot connect to host''))"
           and tool_name = "''lookup''" and ps = "[]"
           and base_url = "Some ''https://example.com/lookup''" and q = "[]"
           and ?e2.0 = "ClientError ''Cannot connect to host''"]
      t [where fns = tools and urlencode = no_query
           and http_get = "answers (Inr unreadable)" and tool_name = "''lookup''"
           and ps = "[]" and base_url = "Some ''https://example.com/lookup''" and q = "[]"
           and r = unreadable
           and ?e3.0 = "ClientError ''Response payload is not completed''"]
      t [where fns = tools and urlencode = no_query
           and http_get = "answers (Inr server_error)" and tool_name = "''lookup''"
           and ps = "[]" and base_url = "Some ''https://example.com/lookup''" and q = "[]"
           and r = server_error and body = "''Internal Server Error''"]
      t [where fns = tools and urlencode = no_query
           and http_get = "answers (Inr not_json)" and tool_name = "''lookup''"
           and ps = "[]" and base_url = "Some ''https://example.com/lookup''" and q = "[]"
           and r = not_json and body = "''<html>''"
           and ?e4.0 = "Exception ''Expecting value''"]
      t [where fns = tools and urlencode = no_query
           and http_get = "answers (Inr found)" and tool_name = "''lookup''"
           and ps = "[]" and base_url = "Some ''https://example.com/lookup''" and q = "[]"
           and r = found and body = "''{}''" and v = "JDict [(''result'', JStr ''ok'')]"]
      t [where fns = tools and urlencode = no_query
           and http_get = "answers (Inl (BaseException ''CancelledError''))"
           and tool_name = "''lookup''" and ps = "[]"
           and e = "BaseException ''CancelledError''"]
    by (simp add: table world responses cancelled error_dict_def handler_text_def str_nat_500)
qed

text \<open>
  C8, as stated, fails: \<open>create_session\<close> on the empty store makes one object, the Session;
  no Incremental Summary State is allocated or stored with it.
\<close>

theorem create_session_allocates_no_summary_state:
  "objects (snd (create_session ''s1'' empty_store)) = [Session SessionState_init] \<and>
   \<not> list_ex is_Manager (objects (snd (create_session ''s1'' empty_store)))"
  by (simp add: create_session_def allocate_def empty_store_def)

text \<open>
  C8, amended. For every id, \<open>create_session\<close> allocates one new object, a Session with
  every flag false and every handle absent, at an address no earlier object has, stores
  that address in the table under the id and returns it; the table is otherwise as it
  was, and the result does not depend on whether the id was in the table: an existing
  entry is always overwritten and the call never fails. It allocates no Incremental
  Summary State: that is a separate object, made by the constructor of
  \<open>IncrementalSummaryManager\<close> for the session it is given, with timestamp 0, empty summary,
  empty buffer and part id \<open>running_summary\<close>, and making it leaves the table unchanged.
\<close>

theorem create_session_stores_fresh_session_and_overwrites:
  "fst (create_session session_id s) = length (objects s) \<and>
   objects (snd (create_session session_id s)) =
     objects s @
     [Session \<lparr> is_receiving_response = False, interrupted = False,
                current_tool_execution = None, current_audio_stream = None,
                genai_session = None, received_model_response = False \<rparr>] \<and>
   active_sessions (snd (create_session session_id s)) =
     (active_sessions s)(session_id \<mapsto> length (objects s)) \<and>
   get_session session_id (snd (create_session session_id s)) =
     Some (fst (create_session session_id s)) \<and>
   active_sessions (snd (create_session session_id
       (s\<lparr>active_sessions := (active_sessions s)(session_id \<mapsto> previous)\<rparr>))) =
     active_sessions (snd (create_session session_id s)) \<and>
   length (filter is_Manager (objects (snd (create_session session_id s)))) =
     length (filter is_Manager (objects s)) \<and>
   fst (IncrementalSummaryManager_init session_state s) = length (objects s) \<and>
   objects (snd (IncrementalSummaryManager_init session_state s)) =
     objects s @
     [Manager session_state
        \<lparr> last_update_ts = 0, running_summary = [], transcript_buffer = [],
          summary_part_id = ''running_summary'' \<rparr>] \<and>
   active_sessions (snd (IncrementalSummaryManager_init session_state s)) = active_sessions s"
  by (simp add: create_session_def IncrementalSummaryManager_init_def allocate_def
      get_session_def SessionState_init_def manager_init_def)

text \<open>
  C10. With no live session attached when the cycle starts, the cycle returns at once:
  it raises nothing, has no effect, and leaves the whole manager, the transcript buffer
  and \<open>running_summary\<close> included, as it was.
\<close>

theorem no_live_session_leaves_manager_unchanged:
  "genai_session session_state = None \<Longrightarrow>
   update_summary_locked cfg env session_state m = (None, m, [])"
  by (simp add: update_summary_locked_def)

text \<open>C10 at a concrete input: two slides buffered on a session that was just created.\<close>

theorem no_live_session_witness:
  "genai_session SessionState_init = None \<and>
   update_summary_locked default_config (env_with (Inr (Some ''Summary: X, Y.'')) None)
     SessionState_init slides = (None, slides, [])"
  using no_live_session_leaves_manager_unchanged
      [of SessionState_init default_config "env_with (Inr (Some ''Summary: X, Y.'')) None" slides]
  by (simp add: SessionState_init_def)


end
